theory Spec2Isabelle
  imports Main "HOL-Library.AList"
begin

section \<open>Values, rows and the relational store\<close>

text \<open>
  The booking system keeps users, tables and bookings in PostgreSQL and reaches them
  through \<^verbatim>\<open>PostgreSQLDriver\<close> (pg_driver.py). Rows travel as Python dictionaries
  (\<^verbatim>\<open>RealDictCursor\<close>), so a row is an association list from column names to values.
  A \<^verbatim>\<open>datetime.date\<close> is compared by year, month and day; a \<^verbatim>\<open>datetime.time\<close>
  is a time of day with microsecond resolution.
\<close>

record date =
  year :: nat
  month :: nat
  day :: nat

definition date_lt :: "date \<Rightarrow> date \<Rightarrow> bool" where
  "date_lt a b \<longleftrightarrow>
     year a < year b \<or>
     (year a = year b \<and> (month a < month b \<or> (month a = month b \<and> day a < day b)))"

record time =
  hour :: nat
  minute :: nat
  second :: nat
  microsecond :: nat

definition total_microseconds :: "time \<Rightarrow> int" where
  "total_microseconds t =
     int (((hour t * 60 + minute t) * 60 + second t) * 1000000 + microsecond t)"

text \<open>
  \<^verbatim>\<open>abs((datetime.combine(date.today(), a) - datetime.combine(date.today(), b)).total_seconds())\<close>:
  both times are put on the same day, so only the time of day counts. The value is kept in
  microseconds; \<^verbatim>\<open>total_seconds()\<close> is this number divided by \<open>10^6\<close>.
\<close>

definition time_diff :: "time \<Rightarrow> time \<Rightarrow> int" where
  "time_diff a b = \<bar>total_microseconds a - total_microseconds b\<bar>"

datatype val =
    VNone
  | VBool bool
  | VInt int
  | VStr string
  | VDate date
  | VTime time
  | VStamp nat

type_synonym dict = "(string \<times> val) list"

datatype error = ValueError | TypeError

text \<open>
  The statements the driver sends to the server. \<open>SqlActiveBookings\<close> is the raw query of
  \<^verbatim>\<open>check_table_availability\<close>:
  \<^verbatim>\<open>SELECT * FROM bookings WHERE table_id = %s AND booking_date = %s AND status IN ('reserved', 'pending')\<close>.
\<close>

datatype request =
    SqlSelect string dict "nat option"
  | SqlInsert string dict
  | SqlUpdate string dict dict
  | SqlDelete string dict
  | SqlActiveBookings int date

text \<open>
  The server: the rows of every table, the identity sequence of every table, the statements
  on which \<^verbatim>\<open>cursor.execute\<close> raises (lost connection, violated constraint, unknown
  column), and the trace of the statements sent so far.
\<close>

record store =
  relations :: "string \<Rightarrow> dict list"
  sequences :: "string \<Rightarrow> int"
  raises :: "request \<Rightarrow> bool"
  requests :: "request list"

text \<open>
  What an operation reads from its surroundings: \<^verbatim>\<open>date.today()\<close>, the value of the
  n-th call of \<^verbatim>\<open>datetime.now()\<close>, and \<^verbatim>\<open>datetime.strptime\<close> with the formats
  \<^verbatim>\<open>%Y-%m-%d\<close> and \<^verbatim>\<open>%H:%M:%S\<close> (\<open>None\<close> where it raises \<^verbatim>\<open>ValueError\<close>).
\<close>

record env =
  today :: date
  now :: "nat \<Rightarrow> nat"
  strptime_date :: "string \<Rightarrow> date option"
  strptime_time :: "string \<Rightarrow> time option"

section \<open>PostgreSQLDriver\<close>

definition execute :: "request \<Rightarrow> store \<Rightarrow> store" where
  "execute rq st = st\<lparr>requests := requests st @ [rq]\<rparr>"

text \<open>\<^verbatim>\<open>column = %s\<close> for every pair of the filter, joined by \<^verbatim>\<open>AND\<close>.\<close>

definition matches :: "dict \<Rightarrow> dict \<Rightarrow> bool" where
  "matches where_eq row = list_all (\<lambda>(k, v). v \<noteq> VNone \<and> map_of row k = Some v) where_eq"

text \<open>
  \<^verbatim>\<open>select\<close> as the models call it (all columns, no \<^verbatim>\<open>ORDER BY\<close>); an exception of the
  cursor is caught and gives the empty list.
\<close>

definition select_db :: "store \<Rightarrow> string \<Rightarrow> dict \<Rightarrow> nat option \<Rightarrow> dict list \<times> store" where
  "select_db st table_name where_eq limit =
     (let rq = SqlSelect table_name where_eq limit;
          st1 = execute rq st
      in if raises st rq then ([], st1)
         else
           let rows = (if where_eq = [] then relations st table_name
                       else filter (matches where_eq) (relations st table_name))
           in ((case limit of
                  None \<Rightarrow> rows
                | Some n \<Rightarrow> if n = 0 then rows else take n rows), st1))"

definition select_one :: "store \<Rightarrow> string \<Rightarrow> dict \<Rightarrow> dict option \<times> store" where
  "select_one st table_name where_eq =
     (let (results, st1) = select_db st table_name where_eq (Some 1)
      in ((case results of [] \<Rightarrow> None | r # rs \<Rightarrow> Some r), st1))"

text \<open>
  \<^verbatim>\<open>insert\<close>: empty data returns \<open>None\<close> without a statement; otherwise the row gets the
  next value of the identity column and \<^verbatim>\<open>RETURNING id\<close> gives it back; an exception is
  caught and gives \<open>None\<close>.
\<close>

definition insert_db :: "store \<Rightarrow> string \<Rightarrow> dict \<Rightarrow> int option \<times> store" where
  "insert_db st table_name data =
     (if data = [] then (None, st)
      else
        let rq = SqlInsert table_name data;
            st1 = execute rq st
        in if raises st rq then (None, st1)
           else
             let n = sequences st table_name
             in (Some n,
                 st1\<lparr>relations := (relations st)
                        (table_name := relations st table_name @ [AList.update ''id'' (VInt n) data]),
                     sequences := (sequences st)(table_name := n + 1)\<rparr>))"

text \<open>
  \<^verbatim>\<open>update\<close>: empty data or an empty filter returns 0 without a statement; otherwise every
  matching row takes the new values and \<^verbatim>\<open>cursor.rowcount\<close> is the number of such rows.
\<close>

definition update_db :: "store \<Rightarrow> string \<Rightarrow> dict \<Rightarrow> dict \<Rightarrow> int \<times> store" where
  "update_db st table_name data where_eq =
     (if data = [] \<or> where_eq = [] then (0, st)
      else
        let rq = SqlUpdate table_name data where_eq;
            st1 = execute rq st
        in if raises st rq then (0, st1)
           else
             let rows = relations st table_name
             in (int (length (filter (matches where_eq) rows)),
                 st1\<lparr>relations := (relations st)
                        (table_name := map (\<lambda>r. if matches where_eq r then AList.merge r data else r) rows)\<rparr>))"

text \<open>
  \<^verbatim>\<open>delete\<close>: an empty filter raises \<^verbatim>\<open>ValueError\<close> before any statement is built;
  otherwise the matching rows go, \<^verbatim>\<open>cursor.rowcount\<close> counts them, and an exception of the
  cursor is caught and gives 0. The foreign keys of bookings (\<^verbatim>\<open>fk_bookings_user_id\<close>,
  \<^verbatim>\<open>fk_bookings_table_id\<close>, both \<^verbatim>\<open>ON DELETE CASCADE\<close>) take the bookings of a
  deleted user or table with them.
\<close>

definition refers :: "string \<Rightarrow> dict list \<Rightarrow> dict \<Rightarrow> bool" where
  "refers column gone row =
     list_ex (\<lambda>g. map_of g ''id'' \<noteq> None \<and> map_of g ''id'' \<noteq> Some VNone \<and>
                  map_of row column = map_of g ''id'') gone"

definition cascade :: "string \<Rightarrow> dict list \<Rightarrow> (string \<Rightarrow> dict list) \<Rightarrow> string \<Rightarrow> dict list" where
  "cascade table_name gone rel =
     (if table_name = ''users''
      then rel(''bookings'' := filter (\<lambda>b. \<not> refers ''user_id'' gone b) (rel ''bookings''))
      else if table_name = ''tables''
      then rel(''bookings'' := filter (\<lambda>b. \<not> refers ''table_id'' gone b) (rel ''bookings''))
      else rel)"

definition delete_db :: "store \<Rightarrow> string \<Rightarrow> dict \<Rightarrow> (error + int) \<times> store" where
  "delete_db st table_name where_eq =
     (if where_eq = [] then (Inl ValueError, st)
      else
        let rq = SqlDelete table_name where_eq;
            st1 = execute rq st
        in if raises st rq then (Inr 0, st1)
           else
             let rows = relations st table_name;
                 gone = filter (matches where_eq) rows
             in (Inr (int (length gone)),
                 st1\<lparr>relations := cascade table_name gone
                        ((relations st)(table_name := filter (\<lambda>r. \<not> matches where_eq r) rows))\<rparr>))"

text \<open>
  The raw query of \<^verbatim>\<open>check_table_availability\<close> through \<^verbatim>\<open>execute_raw\<close>; an exception is
  caught and gives the empty list.
\<close>

definition active_booking :: "int \<Rightarrow> date \<Rightarrow> dict \<Rightarrow> bool" where
  "active_booking table_id booking_date row \<longleftrightarrow>
     map_of row ''table_id'' = Some (VInt table_id) \<and>
     map_of row ''booking_date'' = Some (VDate booking_date) \<and>
     (map_of row ''status'' = Some (VStr ''reserved'') \<or>
      map_of row ''status'' = Some (VStr ''pending''))"

definition execute_raw :: "store \<Rightarrow> int \<Rightarrow> date \<Rightarrow> dict list \<times> store" where
  "execute_raw st table_id booking_date =
     (let rq = SqlActiveBookings table_id booking_date;
          st1 = execute rq st
      in if raises st rq then ([], st1)
         else (filter (active_booking table_id booking_date) (relations st ''bookings''), st1))"

section \<open>TableModel and BookingModel\<close>

definition get_table_by_id :: "store \<Rightarrow> int \<Rightarrow> dict option \<times> store" where
  "get_table_by_id st table_id = select_one st ''tables'' [(''id'', VInt table_id)]"

text \<open>
  The time of a stored booking: a \<^verbatim>\<open>time\<close> object is used as it is, a string is parsed
  with \<^verbatim>\<open>%H:%M:%S\<close>, and \<^verbatim>\<open>datetime.combine\<close> raises \<^verbatim>\<open>TypeError\<close> on anything else.
\<close>

definition booking_time_of :: "env \<Rightarrow> val option \<Rightarrow> error + time" where
  "booking_time_of e v =
     (case v of
        Some (VTime t) \<Rightarrow> Inr t
      | Some (VStr s) \<Rightarrow> (case strptime_time e s of None \<Rightarrow> Inl ValueError | Some t \<Rightarrow> Inr t)
      | _ \<Rightarrow> Inl TypeError)"

text \<open>The loop over the active bookings: the first one less than an hour away rejects.\<close>

fun conflict_scan :: "env \<Rightarrow> time \<Rightarrow> dict list \<Rightarrow> error + bool" where
  "conflict_scan e booking_time [] = Inr True"
| "conflict_scan e booking_time (booking # bookings) =
     (case booking_time_of e (map_of booking ''booking_time'') of
        Inl err \<Rightarrow> Inl err
      | Inr booking_time_obj \<Rightarrow>
          if time_diff booking_time booking_time_obj < 3600 * 1000000 then Inr False
          else conflict_scan e booking_time bookings)"

definition check_table_availability ::
  "env \<Rightarrow> store \<Rightarrow> int \<Rightarrow> date \<Rightarrow> time \<Rightarrow> (error + bool) \<times> store" where
  "check_table_availability e st table_id booking_date booking_time =
     (let (table, st1) = get_table_by_id st table_id
      in case table of
           None \<Rightarrow> (Inr False, st1)
         | Some t \<Rightarrow>
             if t = [] then (Inr False, st1)
             else if map_of t ''status'' = Some (VStr ''unavailable'') then (Inr False, st1)
             else
               let (bookings, st2) = execute_raw st1 table_id booking_date
               in (conflict_scan e booking_time bookings, st2))"

text \<open>
  A date argument is a \<^verbatim>\<open>date\<close> or a string, which \<^verbatim>\<open>create_booking\<close> and
  \<^verbatim>\<open>update_booking\<close> parse with \<^verbatim>\<open>%Y-%m-%d\<close> outside any \<^verbatim>\<open>try\<close>.
\<close>

datatype date_arg = DateObj date | DateStr string

definition as_date :: "env \<Rightarrow> date_arg \<Rightarrow> error + date" where
  "as_date e a =
     (case a of
        DateObj d \<Rightarrow> Inr d
      | DateStr s \<Rightarrow> (case strptime_date e s of None \<Rightarrow> Inl ValueError | Some d \<Rightarrow> Inr d))"

definition valid_statuses :: "string list" where
  "valid_statuses = [''reserved'', ''cancelled'', ''pending'']"

text \<open>
  \<^verbatim>\<open>BookingModel.create_booking\<close>. The status argument is \<open>None\<close> when the caller leaves
  it out, and the parameter default \<^verbatim>\<open>"pending"\<close> takes its place.
\<close>

definition create_booking ::
  "env \<Rightarrow> store \<Rightarrow> int \<Rightarrow> int \<Rightarrow> date_arg \<Rightarrow> time \<Rightarrow> string option \<Rightarrow> (error + int option) \<times> store" where
  "create_booking e st user_id table_id booking_date booking_time status_arg =
     (let status = (case status_arg of None \<Rightarrow> ''pending'' | Some s \<Rightarrow> s)
      in if status \<notin> set valid_statuses then (Inr None, st)
         else
           case as_date e booking_date of
             Inl err \<Rightarrow> (Inl err, st)
           | Inr d \<Rightarrow>
               if date_lt d (today e) then (Inr None, st)
               else
                 let data = [(''user_id'', VInt user_id),
                             (''table_id'', VInt table_id),
                             (''booking_date'', VDate d),
                             (''booking_time'', VTime booking_time),
                             (''status'', VStr status),
                             (''created_at'', VStamp (now e 0)),
                             (''updated_at'', VStamp (now e 1))];
                     (booking_id, st1) = insert_db st ''bookings'' data
                 in (Inr booking_id, st1))"

text \<open>
  \<^verbatim>\<open>BookingModel.update_booking\<close>: the dictionary starts with \<^verbatim>\<open>updated_at\<close> and takes
  each argument that is not \<open>None\<close>; a past date or an unknown status returns \<open>False\<close> on
  the spot, and so does a dictionary that holds \<^verbatim>\<open>updated_at\<close> alone.
\<close>

definition update_booking ::
  "env \<Rightarrow> store \<Rightarrow> int \<Rightarrow> int option \<Rightarrow> int option \<Rightarrow> date_arg option \<Rightarrow> time option \<Rightarrow>
   string option \<Rightarrow> (error + bool) \<times> store" where
  "update_booking e st booking_id user_id table_id booking_date booking_time status =
     (let data0 = [(''updated_at'', VStamp (now e 0))];
          data1 = (case user_id of None \<Rightarrow> data0
                   | Some u \<Rightarrow> AList.update ''user_id'' (VInt u) data0);
          data2 = (case table_id of None \<Rightarrow> data1
                   | Some t \<Rightarrow> AList.update ''table_id'' (VInt t) data1)
      in case (case booking_date of
                 None \<Rightarrow> Inr None
               | Some a \<Rightarrow> (case as_date e a of Inl err \<Rightarrow> Inl err | Inr d \<Rightarrow> Inr (Some d))) of
           Inl err \<Rightarrow> (Inl err, st)
         | Inr new_date \<Rightarrow>
             if (case new_date of None \<Rightarrow> False | Some d \<Rightarrow> date_lt d (today e))
             then (Inr False, st)
             else
               let data3 = (case new_date of None \<Rightarrow> data2
                            | Some d \<Rightarrow> AList.update ''booking_date'' (VDate d) data2);
                   data4 = (case booking_time of None \<Rightarrow> data3
                            | Some t \<Rightarrow> AList.update ''booking_time'' (VTime t) data3)
               in if (case status of None \<Rightarrow> False | Some s \<Rightarrow> s \<notin> set valid_statuses)
                  then (Inr False, st)
                  else
                    let data5 = (case status of None \<Rightarrow> data4
                                 | Some s \<Rightarrow> AList.update ''status'' (VStr s) data4)
                    in if data5 = [] \<or> length data5 = 1 then (Inr False, st)
                       else
                         let (updated, st1) =
                               update_db st ''bookings'' data5 [(''id'', VInt booking_id)]
                         in (Inr (0 < updated), st1))"

text \<open>
  The dictionary that \<^verbatim>\<open>update_booking\<close> has built when it reaches the statement, as a
  function of the time stamp, of the arguments and of the date after parsing.
\<close>

definition update_data ::
  "nat \<Rightarrow> int option \<Rightarrow> int option \<Rightarrow> date option \<Rightarrow> time option \<Rightarrow> string option \<Rightarrow> dict" where
  "update_data stamp user_id table_id new_date booking_time status =
     (let data0 = [(''updated_at'', VStamp stamp)];
          data1 = (case user_id of None \<Rightarrow> data0
                   | Some u \<Rightarrow> AList.update ''user_id'' (VInt u) data0);
          data2 = (case table_id of None \<Rightarrow> data1
                   | Some t \<Rightarrow> AList.update ''table_id'' (VInt t) data1);
          data3 = (case new_date of None \<Rightarrow> data2
                   | Some d \<Rightarrow> AList.update ''booking_date'' (VDate d) data2);
          data4 = (case booking_time of None \<Rightarrow> data3
                   | Some t \<Rightarrow> AList.update ''booking_time'' (VTime t) data3)
      in (case status of None \<Rightarrow> data4
          | Some s \<Rightarrow> AList.update ''status'' (VStr s) data4))"

section \<open>backend.py and the booking form\<close>

definition get_table_by_number :: "store \<Rightarrow> int \<Rightarrow> dict option \<times> store" where
  "get_table_by_number st table_number =
     select_one st ''tables'' [(''table_number'', VInt table_number)]"

text \<open>\<^verbatim>\<open>backend.get_table\<close>: \<^verbatim>\<open>if table_id:\<close> is false for \<open>None\<close> and for 0.\<close>

definition backend_get_table :: "store \<Rightarrow> int option \<Rightarrow> int option \<Rightarrow> dict option \<times> store" where
  "backend_get_table st table_id table_number =
     (case (case table_id of None \<Rightarrow> None | Some n \<Rightarrow> if n = 0 then None else Some n) of
        Some n \<Rightarrow> get_table_by_id st n
      | None \<Rightarrow>
          (case table_number of
             Some k \<Rightarrow> get_table_by_number st k
           | None \<Rightarrow> (None, st)))"

definition backend_create_booking ::
  "env \<Rightarrow> store \<Rightarrow> int \<Rightarrow> int \<Rightarrow> date_arg \<Rightarrow> time \<Rightarrow> string option \<Rightarrow> (error + int option) \<times> store" where
  "backend_create_booking e st user_id table_id booking_date booking_time status_arg =
     create_booking e st user_id table_id booking_date booking_time
       (Some (case status_arg of None \<Rightarrow> ''pending'' | Some s \<Rightarrow> s))"

definition backend_check_table_availability ::
  "env \<Rightarrow> store \<Rightarrow> int \<Rightarrow> date \<Rightarrow> time \<Rightarrow> (error + bool) \<times> store" where
  "backend_check_table_availability e st table_id booking_date booking_time =
     check_table_availability e st table_id booking_date booking_time"

text \<open>
  \<^verbatim>\<open>BookingsTab.create_booking\<close> from the point where the form has given a user id, a
  table id, a date and a time (gui.py, after the parsing of the fields, which writes
  nothing): the status check, the availability check, and the creation with
  \<^verbatim>\<open>status="reserved"\<close>. The result is the message box shown.
\<close>

datatype form_result = TableUnavailable | SlotTaken | Created int | CreateFailed

definition BookingsTab_create_booking ::
  "env \<Rightarrow> store \<Rightarrow> int \<Rightarrow> int \<Rightarrow> date \<Rightarrow> time \<Rightarrow> (error + form_result) \<times> store" where
  "BookingsTab_create_booking e st user_id table_id booking_date booking_time =
     (let (table, st1) = backend_get_table st (Some table_id) None
      in if (case table of
               None \<Rightarrow> False
             | Some t \<Rightarrow> t \<noteq> [] \<and> map_of t ''status'' = Some (VStr ''unavailable''))
         then (Inr TableUnavailable, st1)
         else
           let (verdict, st2) =
                 backend_check_table_availability e st1 table_id booking_date booking_time
           in case verdict of
                Inl err \<Rightarrow> (Inl err, st2)
              | Inr available \<Rightarrow>
                  if \<not> available then (Inr SlotTaken, st2)
                  else
                    let (created, st3) =
                          backend_create_booking e st2 user_id table_id (DateObj booking_date)
                            booking_time (Some ''reserved'')
                    in case created of
                         Inl err \<Rightarrow> (Inl err, st3)
                       | Inr booking_id \<Rightarrow>
                           (case booking_id of
                              None \<Rightarrow> (Inr CreateFailed, st3)
                            | Some n \<Rightarrow>
                                if n = 0 then (Inr CreateFailed, st3)
                                else (Inr (Created n), st3)))"

section \<open>A restaurant to run the operations on\<close>

text \<open>
  Table 7 (id 1) has four seats and is available, table 8 (id 2) is switched off. On
  1 June 2025 table 7 has a reserved booking at 19:00 and a pending one at 22:00.
  Today is 20 May 2025, and the server executes every statement.
\<close>

definition example_env :: env where
  "example_env =
     \<lparr>today = \<lparr>year = 2025, month = 5, day = 20\<rparr>,
      now = (\<lambda>n. 1000 + n),
      strptime_date = (\<lambda>s. None),
      strptime_time = (\<lambda>s. None)\<rparr>"

definition june_1 :: date where
  "june_1 = \<lparr>year = 2025, month = 6, day = 1\<rparr>"

definition at_time :: "nat \<Rightarrow> nat \<Rightarrow> time" where
  "at_time h m = \<lparr>hour = h, minute = m, second = 0, microsecond = 0\<rparr>"

definition example_tables :: "dict list" where
  "example_tables =
     [[(''id'', VInt 1), (''table_number'', VInt 7), (''seats'', VInt 4),
       (''status'', VStr ''available'')],
      [(''id'', VInt 2), (''table_number'', VInt 8), (''seats'', VInt 2),
       (''status'', VStr ''unavailable'')]]"

definition example_bookings :: "dict list" where
  "example_bookings =
     [[(''id'', VInt 1), (''user_id'', VInt 1), (''table_id'', VInt 1),
       (''booking_date'', VDate june_1), (''booking_time'', VTime (at_time 19 0)),
       (''status'', VStr ''reserved''), (''created_at'', VStamp 10), (''updated_at'', VStamp 10)],
      [(''id'', VInt 2), (''user_id'', VInt 1), (''table_id'', VInt 1),
       (''booking_date'', VDate june_1), (''booking_time'', VTime (at_time 22 0)),
       (''status'', VStr ''pending''), (''created_at'', VStamp 20), (''updated_at'', VStamp 20)]]"

definition example_store :: store where
  "example_store =
     \<lparr>relations = (\<lambda>t. [])(''tables'' := example_tables, ''bookings'' := example_bookings),
      sequences = (\<lambda>t. 1)(''tables'' := 3, ''bookings'' := 3),
      raises = (\<lambda>rq. False),
      requests = []\<rparr>"

text \<open>A cancelled booking of table 7 on the same day at 20:30.\<close>

definition cancelled_row :: dict where
  "cancelled_row =
     [(''id'', VInt 3), (''user_id'', VInt 1), (''table_id'', VInt 1),
      (''booking_date'', VDate june_1), (''booking_time'', VTime (at_time 20 30)),
      (''status'', VStr ''cancelled''), (''created_at'', VStamp 30), (''updated_at'', VStamp 40)]"

section \<open>Facts about the driver\<close>

lemma execute_simps [simp]:
  "relations (execute rq st) = relations st"
  "sequences (execute rq st) = sequences st"
  "raises (execute rq st) = raises st"
  "requests (execute rq st) = requests st @ [rq]"
  by (simp_all add: execute_def)

lemma take1_filter_find:
  "(case take (Suc 0) (filter P xs) of [] \<Rightarrow> None | r # rs \<Rightarrow> Some r) = find P xs"
  by (induction xs) auto

lemma matches_id: "matches [(''id'', VInt n)] = (\<lambda>r. map_of r ''id'' = Some (VInt n))"
  by (rule ext) (simp add: matches_def)

lemma get_table_by_id_eq:
  "get_table_by_id st table_id =
     ((if raises st (SqlSelect ''tables'' [(''id'', VInt table_id)] (Some 1)) then None
       else find (\<lambda>r. map_of r ''id'' = Some (VInt table_id)) (relations st ''tables'')),
      execute (SqlSelect ''tables'' [(''id'', VInt table_id)] (Some 1)) st)"
  by (simp add: get_table_by_id_def select_one_def select_db_def Let_def matches_id
      take1_filter_find [simplified])

lemma find_Some_nonempty:
  "find (\<lambda>r. map_of r k = Some v) rows = Some t \<Longrightarrow> t \<noteq> []"
  by (auto simp add: find_Some_iff)

lemma conflict_scan_typed:
  "list_all (\<lambda>b. \<exists>T. map_of b ''booking_time'' = Some (VTime T)) bs \<Longrightarrow>
   conflict_scan e t bs =
     Inr (\<not> list_ex (\<lambda>b. \<exists>T. map_of b ''booking_time'' = Some (VTime T) \<and>
                          time_diff t T < 3600 * 1000000) bs)"
  by (induction bs) (auto simp add: booking_time_of_def)

lemmas example_defs =
  example_env_def example_store_def example_tables_def example_bookings_def june_1_def
  at_time_def

lemma cascade_same:
  "table_name \<noteq> ''bookings'' \<Longrightarrow> cascade table_name gone rel table_name = rel table_name"
  by (simp add: cascade_def)

lemma cascade_bookings: "cascade ''bookings'' gone rel = rel"
  by (simp add: cascade_def)

section \<open>Facts about update_booking\<close>

lemma update_booking_unfold:
  "update_booking e st booking_id user_id table_id booking_date booking_time status =
     (case (case booking_date of
                 None \<Rightarrow> Inr None
               | Some a \<Rightarrow> (case as_date e a of Inl err \<Rightarrow> Inl err | Inr d \<Rightarrow> Inr (Some d))) of
        Inl err \<Rightarrow> (Inl err, st)
      | Inr new_date \<Rightarrow>
          if (case new_date of None \<Rightarrow> False | Some d \<Rightarrow> date_lt d (today e)) then (Inr False, st)
          else if (case status of None \<Rightarrow> False | Some s \<Rightarrow> s \<notin> set valid_statuses)
          then (Inr False, st)
          else if length (update_data (now e 0) user_id table_id new_date booking_time status) = 1
          then (Inr False, st)
          else (Inr (0 < fst (update_db st ''bookings''
                         (update_data (now e 0) user_id table_id new_date booking_time status)
                         [(''id'', VInt booking_id)])),
                snd (update_db st ''bookings''
                         (update_data (now e 0) user_id table_id new_date booking_time status)
                         [(''id'', VInt booking_id)])))"
  by (simp add: update_booking_def update_data_def Let_def split_beta split: sum.splits option.splits)

lemma length_update_data:
  "length (update_data stamp u t d bt s) =
     1 + (if u = None then 0 else 1) + (if t = None then 0 else 1) + (if d = None then 0 else 1) +
     (if bt = None then 0 else 1) + (if s = None then 0 else 1)"
  by (cases u; cases t; cases d; cases bt; cases s) (simp_all add: update_data_def)

lemma map_of_update_data:
  "map_of (update_data stamp u t d bt s) ''user_id'' = map_option VInt u"
  "map_of (update_data stamp u t d bt s) ''table_id'' = map_option VInt t"
  "map_of (update_data stamp u t d bt s) ''booking_date'' = map_option VDate d"
  "map_of (update_data stamp u t d bt s) ''booking_time'' = map_option VTime bt"
  "map_of (update_data stamp u t d bt s) ''status'' = map_option VStr s"
  "map_of (update_data stamp u t d bt s) ''updated_at'' = Some (VStamp stamp)"
  "map_of (update_data stamp u t d bt s) ''id'' = None"
  "map_of (update_data stamp u t d bt s) ''created_at'' = None"
  by (cases u; cases t; cases d; cases bt; cases s; simp add: update_data_def update_conv')+

lemma filter_pos: "\<exists>r \<in> set rows. P r \<Longrightarrow> 0 < length (filter P rows)"
  by (simp add: filter_empty_conv)

lemma update_db_by_id:
  "data \<noteq> [] \<Longrightarrow>
   update_db st table_name data [(''id'', VInt i)] =
     (if raises st (SqlUpdate table_name data [(''id'', VInt i)])
      then (0, execute (SqlUpdate table_name data [(''id'', VInt i)]) st)
      else (int (length (filter (\<lambda>r. map_of r ''id'' = Some (VInt i)) (relations st table_name))),
            (execute (SqlUpdate table_name data [(''id'', VInt i)]) st)
              \<lparr>relations := (relations st)
                 (table_name := map (\<lambda>r. if map_of r ''id'' = Some (VInt i)
                                         then AList.merge r data else r)
                                   (relations st table_name))\<rparr>))"
  by (simp add: update_db_def Let_def matches_id)

lemma update_data_nonempty: "update_data stamp u t d bt s \<noteq> []"
  using length_update_data [of stamp u t d bt s] by auto

lemma merged_field:
  "map_of (AList.merge r data) k = (case map_of data k of None \<Rightarrow> map_of r k | Some v \<Rightarrow> Some v)"
  by (simp add: merge_conv' map_add_def)

lemma example_reschedule:
  "update_booking example_env example_store 2 None None None (Some (at_time 19 30)) None =
     (Inr True,
      example_store
        \<lparr>relations := (relations example_store)
           (''bookings'' :=
              [[(''id'', VInt 1), (''user_id'', VInt 1), (''table_id'', VInt 1),
                (''booking_date'', VDate june_1), (''booking_time'', VTime (at_time 19 0)),
                (''status'', VStr ''reserved''), (''created_at'', VStamp 10), (''updated_at'', VStamp 10)],
               [(''id'', VInt 2), (''user_id'', VInt 1), (''table_id'', VInt 1),
                (''booking_date'', VDate june_1), (''booking_time'', VTime (at_time 19 30)),
                (''status'', VStr ''pending''), (''created_at'', VStamp 20), (''updated_at'', VStamp 1000)]]),
         requests := [SqlUpdate ''bookings''
                        [(''updated_at'', VStamp 1000), (''booking_time'', VTime (at_time 19 30))]
                        [(''id'', VInt 2)]]\<rparr>)"
  by (simp add: update_booking_def update_db_def Let_def matches_id example_defs execute_def
      AList.merge_def)

section \<open>Facts about the availability check, create_booking and the form\<close>

lemma check_table_availability_eq:
  "check_table_availability e st table_id booking_date booking_time =
     (if raises st (SqlSelect ''tables'' [(''id'', VInt table_id)] (Some 1))
      then (Inr False, execute (SqlSelect ''tables'' [(''id'', VInt table_id)] (Some 1)) st)
      else
        case find (\<lambda>r. map_of r ''id'' = Some (VInt table_id)) (relations st ''tables'') of
          None \<Rightarrow> (Inr False, execute (SqlSelect ''tables'' [(''id'', VInt table_id)] (Some 1)) st)
        | Some t \<Rightarrow>
            if map_of t ''status'' = Some (VStr ''unavailable'')
            then (Inr False, execute (SqlSelect ''tables'' [(''id'', VInt table_id)] (Some 1)) st)
            else (conflict_scan e booking_time
                    (if raises st (SqlActiveBookings table_id booking_date) then []
                     else filter (active_booking table_id booking_date) (relations st ''bookings'')),
                  execute (SqlActiveBookings table_id booking_date)
                    (execute (SqlSelect ''tables'' [(''id'', VInt table_id)] (Some 1)) st)))"
  by (auto simp add: check_table_availability_def get_table_by_id_eq execute_raw_def Let_def
      dest: find_Some_nonempty split: option.splits)

lemma check_after_execute:
  "fst (check_table_availability e (execute rq st) table_id booking_date booking_time) =
   fst (check_table_availability e st table_id booking_date booking_time)"
  by (simp add: check_table_availability_eq split: option.splits)

lemma check_keeps_rows:
  "relations (snd (check_table_availability e st table_id booking_date booking_time)) = relations st"
  "sequences (snd (check_table_availability e st table_id booking_date booking_time)) = sequences st"
  "raises (snd (check_table_availability e st table_id booking_date booking_time)) = raises st"
  by (simp_all add: check_table_availability_eq split: option.splits)

lemma check_trace:
  "requests (snd (check_table_availability e st table_id booking_date booking_time)) =
     requests st @ [SqlSelect ''tables'' [(''id'', VInt table_id)] (Some 1)] \<or>
   requests (snd (check_table_availability e st table_id booking_date booking_time)) =
     requests st @ [SqlSelect ''tables'' [(''id'', VInt table_id)] (Some 1),
                    SqlActiveBookings table_id booking_date]"
  by (simp add: check_table_availability_eq split: option.splits)

lemma check_admits_trace:
  "fst (check_table_availability e st table_id booking_date booking_time) = Inr True \<Longrightarrow>
   requests (snd (check_table_availability e st table_id booking_date booking_time)) =
     requests st @ [SqlSelect ''tables'' [(''id'', VInt table_id)] (Some 1),
                    SqlActiveBookings table_id booking_date]"
  by (auto simp add: check_table_availability_eq split: option.splits if_splits)

lemma create_booking_eq:
  "create_booking e st user_id table_id booking_date booking_time status_arg =
     (if (case status_arg of None \<Rightarrow> ''pending'' | Some s \<Rightarrow> s) \<notin> set valid_statuses
      then (Inr None, st)
      else
        case as_date e booking_date of
          Inl err \<Rightarrow> (Inl err, st)
        | Inr d \<Rightarrow>
            if date_lt d (today e) then (Inr None, st)
            else if raises st (SqlInsert ''bookings''
                        [(''user_id'', VInt user_id), (''table_id'', VInt table_id),
                         (''booking_date'', VDate d), (''booking_time'', VTime booking_time),
                         (''status'', VStr (case status_arg of None \<Rightarrow> ''pending'' | Some s \<Rightarrow> s)),
                         (''created_at'', VStamp (now e 0)), (''updated_at'', VStamp (now e 1))])
            then (Inr None,
                  execute (SqlInsert ''bookings''
                        [(''user_id'', VInt user_id), (''table_id'', VInt table_id),
                         (''booking_date'', VDate d), (''booking_time'', VTime booking_time),
                         (''status'', VStr (case status_arg of None \<Rightarrow> ''pending'' | Some s \<Rightarrow> s)),
                         (''created_at'', VStamp (now e 0)), (''updated_at'', VStamp (now e 1))]) st)
            else (Inr (Some (sequences st ''bookings'')),
                  (execute (SqlInsert ''bookings''
                        [(''user_id'', VInt user_id), (''table_id'', VInt table_id),
                         (''booking_date'', VDate d), (''booking_time'', VTime booking_time),
                         (''status'', VStr (case status_arg of None \<Rightarrow> ''pending'' | Some s \<Rightarrow> s)),
                         (''created_at'', VStamp (now e 0)), (''updated_at'', VStamp (now e 1))]) st)
                  \<lparr>relations := (relations st)
                     (''bookings'' := relations st ''bookings'' @
                        [[(''user_id'', VInt user_id), (''table_id'', VInt table_id),
                          (''booking_date'', VDate d), (''booking_time'', VTime booking_time),
                          (''status'', VStr (case status_arg of None \<Rightarrow> ''pending'' | Some s \<Rightarrow> s)),
                          (''created_at'', VStamp (now e 0)), (''updated_at'', VStamp (now e 1)),
                          (''id'', VInt (sequences st ''bookings''))]]),
                    sequences := (sequences st)(''bookings'' := sequences st ''bookings'' + 1)\<rparr>))"
  by (simp add: create_booking_def insert_db_def Let_def split: sum.splits)

lemma create_booking_quiet:
  "relations (snd (create_booking e st user_id table_id booking_date booking_time status_arg)) = relations st
     \<and> requests (snd (create_booking e st user_id table_id booking_date booking_time status_arg)) = requests st
   \<or> (\<exists>data. requests (snd (create_booking e st user_id table_id booking_date booking_time status_arg)) =
         requests st @ [SqlInsert ''bookings'' data])"
  by (auto simp add: create_booking_eq split: if_splits sum.splits)

lemma create_booking_appends:
  assumes "fst (create_booking e st user_id table_id booking_date booking_time status_arg) = Inr (Some n)"
  shows "\<exists>row. relations (snd (create_booking e st user_id table_id booking_date booking_time status_arg))
              ''bookings'' = relations st ''bookings'' @ [row] \<and>
           map_of row ''id'' = Some (VInt n) \<and>
           map_of row ''status'' =
             Some (VStr (case status_arg of None \<Rightarrow> ''pending'' | Some s \<Rightarrow> s))"
  using assms
  by (auto simp add: create_booking_eq split: if_splits sum.splits)

lemma form_unfold:
  "BookingsTab_create_booking e st user_id table_id booking_date booking_time =
     (let lookup = backend_get_table st (Some table_id) None;
          checked = check_table_availability e (snd lookup) table_id booking_date booking_time;
          created = create_booking e (snd checked) user_id table_id (DateObj booking_date)
                      booking_time (Some ''reserved'')
      in if (case fst lookup of
               None \<Rightarrow> False
             | Some t \<Rightarrow> t \<noteq> [] \<and> map_of t ''status'' = Some (VStr ''unavailable''))
         then (Inr TableUnavailable, snd lookup)
         else
           case fst checked of
             Inl err \<Rightarrow> (Inl err, snd checked)
           | Inr available \<Rightarrow>
               if \<not> available then (Inr SlotTaken, snd checked)
               else
                 case fst created of
                   Inl err \<Rightarrow> (Inl err, snd created)
                 | Inr None \<Rightarrow> (Inr CreateFailed, snd created)
                 | Inr (Some n) \<Rightarrow>
                     if n = 0 then (Inr CreateFailed, snd created)
                     else (Inr (Created n), snd created))"
  by (simp add: BookingsTab_create_booking_def backend_create_booking_def
      backend_check_table_availability_def Let_def split_beta
      split: sum.splits option.splits)

lemma lookup_cases:
  "backend_get_table st (Some table_id) None = (None, st) \<or>
   backend_get_table st (Some table_id) None = get_table_by_id st table_id"
  by (simp add: backend_get_table_def)

lemma lookup_store:
  "snd (backend_get_table st (Some table_id) None) = st \<or>
   snd (backend_get_table st (Some table_id) None) =
     execute (SqlSelect ''tables'' [(''id'', VInt table_id)] (Some 1)) st"
  by (simp add: backend_get_table_def get_table_by_id_eq)

lemma lookup_unavailable:
  "fst (backend_get_table st (Some table_id) None) = Some t \<Longrightarrow>
   map_of t ''status'' = Some (VStr ''unavailable'') \<Longrightarrow>
   fst (check_table_availability e st table_id booking_date booking_time) = Inr False"
  by (auto simp add: backend_get_table_def get_table_by_id_eq check_table_availability_eq
      split: if_splits)

lemma check_after_lookup:
  "fst (check_table_availability e (snd (backend_get_table st (Some table_id) None))
          table_id booking_date booking_time) =
   fst (check_table_availability e st table_id booking_date booking_time)"
  using lookup_store [of st table_id] by (auto simp add: check_after_execute)

lemma lookup_keeps_rows:
  "relations (snd (backend_get_table st (Some table_id) None)) = relations st"
  using lookup_store [of st table_id] by auto

lemma example_lunch:
  "create_booking example_env example_store 1 1 (DateObj june_1) (at_time 12 0) status_arg =
     (if (case status_arg of None \<Rightarrow> ''pending'' | Some s \<Rightarrow> s) \<notin> set valid_statuses
      then (Inr None, example_store)
      else (Inr (Some 3),
        example_store
          \<lparr>relations := (relations example_store)
             (''bookings'' := example_bookings @
                [[(''user_id'', VInt 1), (''table_id'', VInt 1), (''booking_date'', VDate june_1),
                  (''booking_time'', VTime (at_time 12 0)),
                  (''status'', VStr (case status_arg of None \<Rightarrow> ''pending'' | Some s \<Rightarrow> s)),
                  (''created_at'', VStamp 1000), (''updated_at'', VStamp 1001),
                  (''id'', VInt 3)]]),
           sequences := (sequences example_store)(''bookings'' := 4),
           requests := [SqlInsert ''bookings''
                [(''user_id'', VInt 1), (''table_id'', VInt 1), (''booking_date'', VDate june_1),
                  (''booking_time'', VTime (at_time 12 0)),
                  (''status'', VStr (case status_arg of None \<Rightarrow> ''pending'' | Some s \<Rightarrow> s)),
                  (''created_at'', VStamp 1000), (''updated_at'', VStamp 1001)]]\<rparr>))"
  by (simp add: create_booking_eq as_date_def date_lt_def execute_def example_env_def
      example_store_def june_1_def)

lemma example_check_noon:
  "fst (check_table_availability example_env example_store 1 june_1 (at_time 12 0)) = Inr True"
  by (simp add: check_table_availability_eq example_defs active_booking_def booking_time_of_def
      time_diff_def total_microseconds_def)

lemma example_form_noon:
  "fst (BookingsTab_create_booking example_env example_store 1 1 june_1 (at_time 12 0)) =
     Inr (Created 3)"
  by (simp add: form_unfold Let_def backend_get_table_def get_table_by_id_eq
      check_table_availability_eq create_booking_eq as_date_def date_lt_def valid_statuses_def
      example_defs active_booking_def booking_time_of_def time_diff_def total_microseconds_def)

lemma example_check_half_past:
  "fst (check_table_availability example_env example_store 1 june_1 (at_time 19 30)) = Inr False"
  by (simp add: check_table_availability_eq example_defs active_booking_def booking_time_of_def
      time_diff_def total_microseconds_def)

section \<open>The availability engine\<close>

text \<open>
  C3. \<^verbatim>\<open>check_table_availability\<close> answers \<open>False\<close> when no table has the id, and when the
  table found has status \<^verbatim>\<open>unavailable\<close>, whatever the date, the time and the bookings
  stored (also none). The only statement it sends in these cases is the lookup of the table:
  the bookings are never queried.
\<close>

theorem unavailable_or_absent_rejects:
  assumes "find (\<lambda>r. map_of r ''id'' = Some (VInt table_id)) (relations st ''tables'') = None \<or>
     (\<exists>t. find (\<lambda>r. map_of r ''id'' = Some (VInt table_id)) (relations st ''tables'') = Some t \<and>
          map_of t ''status'' = Some (VStr ''unavailable''))"
  shows "fst (check_table_availability e (st\<lparr>relations := (relations st)(''bookings'' := bs)\<rparr>)
            table_id booking_date booking_time) = Inr False \<and>
         requests (snd (check_table_availability e
            (st\<lparr>relations := (relations st)(''bookings'' := bs)\<rparr>)
            table_id booking_date booking_time)) =
           requests st @ [SqlSelect ''tables'' [(''id'', VInt table_id)] (Some 1)]"
  using assms
  by (auto simp add: check_table_availability_def get_table_by_id_eq)

theorem unavailable_or_absent_rejects_witness:
  "(find (\<lambda>r. map_of r ''id'' = Some (VInt 2)) (relations example_store ''tables'') = None \<or>
     (\<exists>t. find (\<lambda>r. map_of r ''id'' = Some (VInt 2)) (relations example_store ''tables'') = Some t \<and>
          map_of t ''status'' = Some (VStr ''unavailable''))) \<and>
   fst (check_table_availability example_env
          (example_store\<lparr>relations := (relations example_store)(''bookings'' := [])\<rparr>)
          2 june_1 (at_time 19 0)) = Inr False"
proof -
  have h: "find (\<lambda>r. map_of r ''id'' = Some (VInt 2)) (relations example_store ''tables'') = None \<or>
     (\<exists>t. find (\<lambda>r. map_of r ''id'' = Some (VInt 2)) (relations example_store ''tables'') = Some t \<and>
          map_of t ''status'' = Some (VStr ''unavailable''))"
    by (simp add: example_store_def example_tables_def)
  from unavailable_or_absent_rejects [OF h, of example_env "[]" june_1 "at_time 19 0"] h
  show ?thesis by simp
qed

text \<open>
  C4. The table exists with status \<^verbatim>\<open>available\<close>, the server answers, and the active
  bookings of the table on the date carry a time. Then a request less than 3600 seconds
  (3600000000 microseconds) from the time of an active booking is rejected; a request at
  least 3600 seconds from every active booking is admitted; and so is a request on a date
  with no active booking.
\<close>

theorem one_hour_window:
  assumes tbl: "find (\<lambda>r. map_of r ''id'' = Some (VInt table_id)) (relations st ''tables'') = Some tr"
    and avail: "map_of tr ''status'' = Some (VStr ''available'')"
    and up: "\<not> raises st (SqlSelect ''tables'' [(''id'', VInt table_id)] (Some 1))"
            "\<not> raises st (SqlActiveBookings table_id booking_date)"
    and typed: "list_all (\<lambda>b. \<exists>T. map_of b ''booking_time'' = Some (VTime T))
                  (filter (active_booking table_id booking_date) (relations st ''bookings''))"
  shows "((\<exists>b \<in> set (relations st ''bookings''). \<exists>T.
             active_booking table_id booking_date b \<and>
             map_of b ''booking_time'' = Some (VTime T) \<and>
             time_diff booking_time T < 3600 * 1000000) \<longrightarrow>
          fst (check_table_availability e st table_id booking_date booking_time) = Inr False) \<and>
         ((\<forall>b \<in> set (relations st ''bookings''). \<forall>T.
             active_booking table_id booking_date b \<and>
             map_of b ''booking_time'' = Some (VTime T) \<longrightarrow>
             3600 * 1000000 \<le> time_diff booking_time T) \<longrightarrow>
          fst (check_table_availability e st table_id booking_date booking_time) = Inr True) \<and>
         (filter (active_booking table_id booking_date) (relations st ''bookings'') = [] \<longrightarrow>
          fst (check_table_availability e st table_id booking_date booking_time) = Inr True)"
proof -
  let ?cands = "filter (active_booking table_id booking_date) (relations st ''bookings'')"
  have ne: "tr \<noteq> []" using tbl by (rule find_Some_nonempty)
  have eq: "fst (check_table_availability e st table_id booking_date booking_time) =
        conflict_scan e booking_time ?cands"
    using tbl avail up ne
    by (simp add: check_table_availability_def get_table_by_id_eq execute_raw_def Let_def)
  have scan: "conflict_scan e booking_time ?cands =
      Inr (\<not> list_ex (\<lambda>b. \<exists>T. map_of b ''booking_time'' = Some (VTime T) \<and>
                          time_diff booking_time T < 3600 * 1000000) ?cands)"
    using typed by (rule conflict_scan_typed)
  show ?thesis
    unfolding eq scan
    by (auto simp add: list_ex_iff not_le)
qed

theorem one_hour_window_witness:
  "fst (check_table_availability example_env example_store 1 june_1 (at_time 19 30)) = Inr False \<and>
   fst (check_table_availability example_env example_store 1 june_1 (at_time 20 0)) = Inr True \<and>
   fst (check_table_availability example_env
          (example_store\<lparr>relations := (relations example_store)(''bookings'' := [])\<rparr>)
          1 june_1 (at_time 19 0)) = Inr True"
proof -
  let ?tr = "[(''id'', VInt 1), (''table_number'', VInt 7), (''seats'', VInt 4),
       (''status'', VStr ''available'')]"
  let ?empty = "example_store\<lparr>relations := (relations example_store)(''bookings'' := [])\<rparr>"
  have tbl: "find (\<lambda>r. map_of r ''id'' = Some (VInt 1)) (relations example_store ''tables'') = Some ?tr"
    by (simp add: example_defs)
  have tbl': "find (\<lambda>r. map_of r ''id'' = Some (VInt 1)) (relations ?empty ''tables'') = Some ?tr"
    by (simp add: example_defs)
  have avail: "map_of ?tr ''status'' = Some (VStr ''available'')" by simp
  have up: "\<not> raises example_store (SqlSelect ''tables'' [(''id'', VInt 1)] (Some 1))"
    "\<not> raises example_store (SqlActiveBookings 1 june_1)"
    "\<not> raises ?empty (SqlSelect ''tables'' [(''id'', VInt 1)] (Some 1))"
    "\<not> raises ?empty (SqlActiveBookings 1 june_1)"
    by (simp_all add: example_defs)
  have typed: "list_all (\<lambda>b. \<exists>T. map_of b ''booking_time'' = Some (VTime T))
                  (filter (active_booking 1 june_1) (relations example_store ''bookings''))"
    by (simp add: example_defs active_booking_def)
  have typed': "list_all (\<lambda>b. \<exists>T. map_of b ''booking_time'' = Some (VTime T))
                  (filter (active_booking 1 june_1) (relations ?empty ''bookings''))"
    by simp
  have near: "\<exists>b \<in> set (relations example_store ''bookings''). \<exists>T.
             active_booking 1 june_1 b \<and>
             map_of b ''booking_time'' = Some (VTime T) \<and>
             time_diff (at_time 19 30) T < 3600 * 1000000"
    by (simp add: example_defs active_booking_def time_diff_def total_microseconds_def)
  have far: "\<forall>b \<in> set (relations example_store ''bookings''). \<forall>T.
             active_booking 1 june_1 b \<and>
             map_of b ''booking_time'' = Some (VTime T) \<longrightarrow>
             3600 * 1000000 \<le> time_diff (at_time 20 0) T"
    by (simp add: example_defs active_booking_def time_diff_def total_microseconds_def)
  have none: "filter (active_booking 1 june_1) (relations ?empty ''bookings'') = []"
    by simp
  from one_hour_window [OF tbl avail up(1,2) typed, of "at_time 19 30" example_env] near
  have a: "fst (check_table_availability example_env example_store 1 june_1 (at_time 19 30)) = Inr False"
    by blast
  from one_hour_window [OF tbl avail up(1,2) typed, of "at_time 20 0" example_env] far
  have b: "fst (check_table_availability example_env example_store 1 june_1 (at_time 20 0)) = Inr True"
    by blast
  from one_hour_window [OF tbl' avail up(3,4) typed', of "at_time 19 0" example_env] none
  have c: "fst (check_table_availability example_env ?empty 1 june_1 (at_time 19 0)) = Inr True"
    by blast
  from a b c show ?thesis by simp
qed

text \<open>
  C5. A booking that is cancelled, or more generally one that the query for the active
  bookings of the table on the date does not select, has no part in the answer: with it or
  without it in the bookings table the answer is the same.
\<close>

theorem cancelled_invisible:
  assumes "map_of b ''status'' = Some (VStr ''cancelled'') \<or>
           \<not> active_booking table_id booking_date b"
  shows "fst (check_table_availability e
            (st\<lparr>relations := (relations st)(''bookings'' := xs @ b # ys)\<rparr>)
            table_id booking_date booking_time) =
         fst (check_table_availability e
            (st\<lparr>relations := (relations st)(''bookings'' := xs @ ys)\<rparr>)
            table_id booking_date booking_time)"
proof -
  have "\<not> active_booking table_id booking_date b"
    using assms by (auto simp add: active_booking_def)
  then show ?thesis
    by (simp add: check_table_availability_def get_table_by_id_eq execute_raw_def Let_def
        split: option.splits)
qed

theorem cancelled_invisible_witness:
  "map_of cancelled_row ''status'' = Some (VStr ''cancelled'') \<and>
   fst (check_table_availability example_env
          (example_store\<lparr>relations := (relations example_store)
             (''bookings'' := example_bookings @ cancelled_row # [])\<rparr>)
          1 june_1 (at_time 20 30)) = Inr True"
proof -
  have h: "map_of cancelled_row ''status'' = Some (VStr ''cancelled'') \<or>
           \<not> active_booking 1 june_1 cancelled_row"
    by (simp add: cancelled_row_def)
  have admit: "fst (check_table_availability example_env
          (example_store\<lparr>relations := (relations example_store)
             (''bookings'' := example_bookings @ [])\<rparr>)
          1 june_1 (at_time 20 30)) = Inr True"
    by (simp add: check_table_availability_def get_table_by_id_eq execute_raw_def Let_def
        example_defs active_booking_def booking_time_of_def time_diff_def total_microseconds_def)
  from cancelled_invisible [OF h, of example_env example_store example_bookings "[]" "at_time 20 30"]
    admit
  show ?thesis by (simp add: cancelled_row_def)
qed

section \<open>Creation\<close>

text \<open>
  C1, as the code has it. A row that \<^verbatim>\<open>BookingModel.create_booking\<close> or
  \<^verbatim>\<open>backend.create_booking\<close> inserts carries the status argument, and \<^verbatim>\<open>pending\<close>, the
  default of the parameter, when the caller leaves the argument out. The booking form passes
  \<^verbatim>\<open>reserved\<close> itself: a row it creates was admitted by the availability check and is
  stored as \<^verbatim>\<open>reserved\<close>.
\<close>

theorem created_status:
  "let direct = create_booking e st user_id table_id any_date booking_time status_arg;
       backend = backend_create_booking e st user_id table_id any_date booking_time status_arg;
       form = BookingsTab_create_booking e st user_id table_id booking_date booking_time
   in (fst direct = Inr (Some n) \<longrightarrow>
         (\<exists>row. relations (snd direct) ''bookings'' = relations st ''bookings'' @ [row] \<and>
                map_of row ''id'' = Some (VInt n) \<and>
                map_of row ''status'' =
                  Some (VStr (case status_arg of None \<Rightarrow> ''pending'' | Some s \<Rightarrow> s)))) \<and>
      (fst backend = Inr (Some n) \<longrightarrow>
         (\<exists>row. relations (snd backend) ''bookings'' = relations st ''bookings'' @ [row] \<and>
                map_of row ''id'' = Some (VInt n) \<and>
                map_of row ''status'' =
                  Some (VStr (case status_arg of None \<Rightarrow> ''pending'' | Some s \<Rightarrow> s)))) \<and>
      (fst form = Inr (Created n) \<longrightarrow>
         fst (check_table_availability e st table_id booking_date booking_time) = Inr True \<and>
         (\<exists>row. relations (snd form) ''bookings'' = relations st ''bookings'' @ [row] \<and>
                map_of row ''id'' = Some (VInt n) \<and>
                map_of row ''status'' = Some (VStr ''reserved'')))"
proof -
  let ?look = "backend_get_table st (Some table_id) None"
  let ?checked = "check_table_availability e (snd ?look) table_id booking_date booking_time"
  let ?created = "create_booking e (snd ?checked) user_id table_id (DateObj booking_date)
                      booking_time (Some ''reserved'')"
  let ?form = "BookingsTab_create_booking e st user_id table_id booking_date booking_time"
  have direct: "\<exists>row. relations (snd (create_booking e st user_id table_id any_date booking_time status_arg))
              ''bookings'' = relations st ''bookings'' @ [row] \<and>
           map_of row ''id'' = Some (VInt n) \<and>
           map_of row ''status'' =
             Some (VStr (case status_arg of None \<Rightarrow> ''pending'' | Some s \<Rightarrow> s))"
    if "fst (create_booking e st user_id table_id any_date booking_time status_arg) = Inr (Some n)"
    using that by (rule create_booking_appends)
  have backend: "\<exists>row. relations (snd (backend_create_booking e st user_id table_id any_date booking_time status_arg))
              ''bookings'' = relations st ''bookings'' @ [row] \<and>
           map_of row ''id'' = Some (VInt n) \<and>
           map_of row ''status'' =
             Some (VStr (case status_arg of None \<Rightarrow> ''pending'' | Some s \<Rightarrow> s))"
    if "fst (backend_create_booking e st user_id table_id any_date booking_time status_arg) = Inr (Some n)"
    using create_booking_appends [of e st user_id table_id any_date booking_time
        "Some (case status_arg of None \<Rightarrow> ''pending'' | Some s \<Rightarrow> s)" n] that
    by (simp add: backend_create_booking_def)
  have form: "fst (check_table_availability e st table_id booking_date booking_time) = Inr True \<and>
         (\<exists>row. relations (snd ?form) ''bookings'' = relations st ''bookings'' @ [row] \<and>
                map_of row ''id'' = Some (VInt n) \<and>
                map_of row ''status'' = Some (VStr ''reserved''))"
    if c: "fst ?form = Inr (Created n)"
  proof -
    from c have ct: "fst ?checked = Inr True"
      by (auto simp add: form_unfold Let_def split: if_splits sum.splits option.splits)
    from c have made: "fst ?created = Inr (Some n)" and s: "snd ?form = snd ?created"
      by (auto simp add: form_unfold Let_def split: if_splits sum.splits option.splits)
    from ct have admitted: "fst (check_table_availability e st table_id booking_date booking_time) = Inr True"
      by (simp add: check_after_lookup)
    have rel: "relations (snd ?checked) = relations st"
      by (simp add: check_keeps_rows lookup_keeps_rows)
    from create_booking_appends [OF made] rel s admitted show ?thesis by simp
  qed
  from direct backend form show ?thesis
    unfolding Let_def by blast
qed

theorem created_status_witness:
  "fst (create_booking example_env example_store 1 1 (DateObj june_1) (at_time 12 0) None) =
     Inr (Some 3) \<and>
   (\<exists>row. relations (snd (create_booking example_env example_store 1 1 (DateObj june_1)
                            (at_time 12 0) None)) ''bookings'' =
            relations example_store ''bookings'' @ [row] \<and>
          map_of row ''id'' = Some (VInt 3) \<and>
          map_of row ''status'' = Some (VStr ''pending'')) \<and>
   fst (BookingsTab_create_booking example_env example_store 1 1 june_1 (at_time 12 0)) =
     Inr (Created 3) \<and>
   (\<exists>row. relations (snd (BookingsTab_create_booking example_env example_store 1 1 june_1
                            (at_time 12 0))) ''bookings'' =
            relations example_store ''bookings'' @ [row] \<and>
          map_of row ''id'' = Some (VInt 3) \<and>
          map_of row ''status'' = Some (VStr ''reserved''))"
proof -
  have direct:
    "fst (create_booking example_env example_store 1 1 (DateObj june_1) (at_time 12 0) None) =
       Inr (Some 3)"
    by (simp add: example_lunch valid_statuses_def)
  note form = example_form_noon
  from created_status [where e = example_env and st = example_store and user_id = 1
      and table_id = 1 and any_date = "DateObj june_1" and booking_time = "at_time 12 0"
      and status_arg = None and booking_date = june_1 and n = 3]
    direct form
  show ?thesis
    unfolding Let_def by simp
qed

text \<open>
  C1 as stated fails: table 7 is free at noon on 1 June, \<^verbatim>\<open>backend.create_booking\<close> without
  a status inserts booking 3, and the row stored is \<^verbatim>\<open>pending\<close>.
\<close>

theorem default_status_counterexample:
  "fst (check_table_availability example_env example_store 1 june_1 (at_time 12 0)) = Inr True \<and>
   fst (backend_create_booking example_env example_store 1 1 (DateObj june_1) (at_time 12 0) None)
     = Inr (Some 3) \<and>
   map (\<lambda>r. map_of r ''status'')
     (filter (\<lambda>r. map_of r ''id'' = Some (VInt 3))
        (relations (snd (backend_create_booking example_env example_store 1 1 (DateObj june_1)
                           (at_time 12 0) None)) ''bookings''))
     = [Some (VStr ''pending'')] \<and>
   Some (VStr ''pending'') \<noteq> Some (VStr ''reserved'')"
proof -
  have made: "fst (backend_create_booking example_env example_store 1 1 (DateObj june_1)
                     (at_time 12 0) None) = Inr (Some 3)"
    by (simp add: backend_create_booking_def example_lunch valid_statuses_def)
  have stored: "map (\<lambda>r. map_of r ''status'')
     (filter (\<lambda>r. map_of r ''id'' = Some (VInt 3))
        (relations (snd (backend_create_booking example_env example_store 1 1 (DateObj june_1)
                           (at_time 12 0) None)) ''bookings''))
     = [Some (VStr ''pending'')]"
    by (simp add: backend_create_booking_def example_lunch valid_statuses_def example_bookings_def)
  from example_check_noon made stored show ?thesis by simp
qed

text \<open>
  C2, as the code has it. The booking form asks \<^verbatim>\<open>check_table_availability\<close> first. When
  the answer is \<open>False\<close> it shows an error; whenever the answer is not \<open>True\<close> no row changes
  and only the lookup of the table and the query for the active bookings were sent. When the
  answer is \<open>True\<close> the \<^verbatim>\<open>INSERT\<close>, if one is sent, comes right after the query for the
  active bookings. \<^verbatim>\<open>BookingModel.create_booking\<close> itself sends at most the \<^verbatim>\<open>INSERT\<close>:
  it never asks the availability check.
\<close>

theorem form_checks_before_insert:
  "let form = BookingsTab_create_booking e st user_id table_id booking_date booking_time;
       verdict = fst (check_table_availability e st table_id booking_date booking_time);
       direct = create_booking e st user_id table_id any_date booking_time any_status;
       lookup = SqlSelect ''tables'' [(''id'', VInt table_id)] (Some 1);
       query = SqlActiveBookings table_id booking_date
   in (verdict = Inr False \<longrightarrow> fst form = Inr TableUnavailable \<or> fst form = Inr SlotTaken) \<and>
      (verdict \<noteq> Inr True \<longrightarrow>
         relations (snd form) = relations st \<and>
         (\<exists>trace. requests (snd form) = requests st @ trace \<and> set trace \<subseteq> {lookup, query})) \<and>
      (verdict = Inr True \<longrightarrow>
         (\<exists>pre. set pre \<subseteq> {lookup} \<and>
            (requests (snd form) = requests st @ pre @ [query] \<and> relations (snd form) = relations st \<or>
             (\<exists>data. requests (snd form) = requests st @ pre @ [query, SqlInsert ''bookings'' data])))) \<and>
      (requests (snd direct) = requests st \<and> relations (snd direct) = relations st \<or>
       (\<exists>data. requests (snd direct) = requests st @ [SqlInsert ''bookings'' data]))"
proof -
  let ?rq = "SqlSelect ''tables'' [(''id'', VInt table_id)] (Some 1)"
  let ?q = "SqlActiveBookings table_id booking_date"
  let ?look = "backend_get_table st (Some table_id) None"
  let ?checked = "check_table_availability e (snd ?look) table_id booking_date booking_time"
  let ?created = "create_booking e (snd ?checked) user_id table_id (DateObj booking_date)
                      booking_time (Some ''reserved'')"
  let ?form = "BookingsTab_create_booking e st user_id table_id booking_date booking_time"
  let ?verdict = "fst (check_table_availability e st table_id booking_date booking_time)"
  let ?off = "case fst ?look of
               None \<Rightarrow> False
             | Some t \<Rightarrow> t \<noteq> [] \<and> map_of t ''status'' = Some (VStr ''unavailable'')"
  have v: "fst ?checked = ?verdict" by (rule check_after_lookup)
  have l_rel: "relations (snd ?look) = relations st" by (rule lookup_keeps_rows)
  have l_req: "requests (snd ?look) = requests st \<or> requests (snd ?look) = requests st @ [?rq]"
    using lookup_store [of st table_id] by auto
  have c_rel: "relations (snd ?checked) = relations st"
    by (simp add: check_keeps_rows l_rel)
  have c_req: "requests (snd ?checked) = requests (snd ?look) @ [?rq] \<or>
               requests (snd ?checked) = requests (snd ?look) @ [?rq, ?q]"
    by (rule check_trace)
  have off_rejects: "?verdict = Inr False" if "?off"
    using that lookup_unavailable [of st table_id _ e booking_date booking_time]
    by (auto split: option.splits)
  have reject: "fst ?form = Inr TableUnavailable \<or> fst ?form = Inr SlotTaken" if "?verdict = Inr False"
    using that v by (simp add: form_unfold Let_def)
  have reads: "relations (snd ?form) = relations st \<and>
         (\<exists>trace. requests (snd ?form) = requests st @ trace \<and> set trace \<subseteq> {?rq, ?q})"
    if nt: "?verdict \<noteq> Inr True"
  proof (cases "?off")
    case True
    then have "snd ?form = snd ?look" by (simp add: form_unfold Let_def)
    with l_rel l_req show ?thesis by auto
  next
    case False
    with nt v have "snd ?form = snd ?checked"
      by (auto simp add: form_unfold Let_def split: sum.splits)
    with c_rel c_req l_req show ?thesis by auto
  qed
  have admit: "\<exists>pre. set pre \<subseteq> {?rq} \<and>
            (requests (snd ?form) = requests st @ pre @ [?q] \<and> relations (snd ?form) = relations st \<or>
             (\<exists>data. requests (snd ?form) = requests st @ pre @ [?q, SqlInsert ''bookings'' data]))"
    if t: "?verdict = Inr True"
  proof -
    from t off_rejects have noff: "\<not> ?off" by auto
    from t v have ct: "fst ?checked = Inr True" by simp
    then have cq: "requests (snd ?checked) = requests (snd ?look) @ [?rq, ?q]"
      by (rule check_admits_trace)
    from noff ct have s: "snd ?form = snd ?created"
      by (auto simp add: form_unfold Let_def split: sum.splits option.splits)
    from create_booking_quiet [of e "snd ?checked" user_id table_id "DateObj booking_date"
        booking_time "Some ''reserved''"]
    consider (quiet) "relations (snd ?created) = relations (snd ?checked)"
                     "requests (snd ?created) = requests (snd ?checked)"
      | (sent) data where "requests (snd ?created) = requests (snd ?checked) @ [SqlInsert ''bookings'' data]"
      by blast
    then show ?thesis
    proof cases
      case quiet
      from l_req show ?thesis
      proof
        assume "requests (snd ?look) = requests st"
        with quiet cq c_rel s
        have "set [?rq] \<subseteq> {?rq} \<and> requests (snd ?form) = requests st @ [?rq] @ [?q] \<and>
              relations (snd ?form) = relations st" by simp
        then show ?thesis by blast
      next
        assume "requests (snd ?look) = requests st @ [?rq]"
        with quiet cq c_rel s
        have "set [?rq, ?rq] \<subseteq> {?rq} \<and> requests (snd ?form) = requests st @ [?rq, ?rq] @ [?q] \<and>
              relations (snd ?form) = relations st" by simp
        then show ?thesis by blast
      qed
    next
      case sent
      from l_req show ?thesis
      proof
        assume "requests (snd ?look) = requests st"
        with sent cq s
        have "set [?rq] \<subseteq> {?rq} \<and>
              requests (snd ?form) = requests st @ [?rq] @ [?q, SqlInsert ''bookings'' data]" by simp
        then show ?thesis by blast
      next
        assume "requests (snd ?look) = requests st @ [?rq]"
        with sent cq s
        have "set [?rq, ?rq] \<subseteq> {?rq} \<and>
              requests (snd ?form) = requests st @ [?rq, ?rq] @ [?q, SqlInsert ''bookings'' data]" by simp
        then show ?thesis by blast
      qed
    qed
  qed
  have direct: "requests (snd (create_booking e st user_id table_id any_date booking_time any_status)) = requests st \<and>
       relations (snd (create_booking e st user_id table_id any_date booking_time any_status)) = relations st \<or>
       (\<exists>data. requests (snd (create_booking e st user_id table_id any_date booking_time any_status)) =
          requests st @ [SqlInsert ''bookings'' data])"
    using create_booking_quiet [of e st user_id table_id any_date booking_time any_status] by blast
  from reject reads admit direct show ?thesis
    unfolding Let_def by blast
qed

theorem form_checks_before_insert_witness:
  "fst (check_table_availability example_env example_store 1 june_1 (at_time 19 30)) = Inr False \<and>
   (fst (BookingsTab_create_booking example_env example_store 1 1 june_1 (at_time 19 30)) =
      Inr TableUnavailable \<or>
    fst (BookingsTab_create_booking example_env example_store 1 1 june_1 (at_time 19 30)) =
      Inr SlotTaken) \<and>
   relations (snd (BookingsTab_create_booking example_env example_store 1 1 june_1 (at_time 19 30))) =
     relations example_store"
proof -
  note rejected = example_check_half_past
  from form_checks_before_insert [where e = example_env and st = example_store and user_id = 1
      and table_id = 1 and booking_date = june_1 and booking_time = "at_time 19 30"
      and any_date = "DateObj june_1" and any_status = None]
    rejected
  show ?thesis
    unfolding Let_def by simp
qed

text \<open>
  C2 as stated fails: table 7 has a reserved booking at 19:00 on 1 June, the availability
  check rejects 19:00, and \<^verbatim>\<open>create_booking\<close> still inserts booking 3, with the
  \<^verbatim>\<open>INSERT\<close> as the only statement sent.
\<close>

theorem unchecked_create_counterexample:
  "fst (check_table_availability example_env example_store 1 june_1 (at_time 19 0)) = Inr False \<and>
   fst (create_booking example_env example_store 1 1 (DateObj june_1) (at_time 19 0)
          (Some ''reserved'')) = Inr (Some 3) \<and>
   length (relations (snd (create_booking example_env example_store 1 1 (DateObj june_1)
                             (at_time 19 0) (Some ''reserved''))) ''bookings'') = 3 \<and>
   requests (snd (create_booking example_env example_store 1 1 (DateObj june_1)
                    (at_time 19 0) (Some ''reserved''))) =
     [SqlInsert ''bookings''
        [(''user_id'', VInt 1), (''table_id'', VInt 1), (''booking_date'', VDate june_1),
         (''booking_time'', VTime (at_time 19 0)), (''status'', VStr ''reserved''),
         (''created_at'', VStamp 1000), (''updated_at'', VStamp 1001)]]"
proof -
  have rejected:
    "fst (check_table_availability example_env example_store 1 june_1 (at_time 19 0)) = Inr False"
    by (simp add: check_table_availability_eq example_defs active_booking_def booking_time_of_def
        time_diff_def total_microseconds_def)
  have made: "fst (create_booking example_env example_store 1 1 (DateObj june_1) (at_time 19 0)
          (Some ''reserved'')) = Inr (Some 3)"
    by (simp add: create_booking_eq as_date_def date_lt_def valid_statuses_def example_env_def
        example_store_def june_1_def)
  have rows: "length (relations (snd (create_booking example_env example_store 1 1 (DateObj june_1)
                             (at_time 19 0) (Some ''reserved''))) ''bookings'') = 3"
    by (simp add: create_booking_eq as_date_def date_lt_def valid_statuses_def example_env_def
        example_store_def june_1_def example_bookings_def)
  have trace: "requests (snd (create_booking example_env example_store 1 1 (DateObj june_1)
                    (at_time 19 0) (Some ''reserved''))) =
     [SqlInsert ''bookings''
        [(''user_id'', VInt 1), (''table_id'', VInt 1), (''booking_date'', VDate june_1),
         (''booking_time'', VTime (at_time 19 0)), (''status'', VStr ''reserved''),
         (''created_at'', VStamp 1000), (''updated_at'', VStamp 1001)]]"
    by (simp add: create_booking_eq as_date_def date_lt_def valid_statuses_def example_env_def
        example_store_def june_1_def)
  from rejected made rows trace show ?thesis by simp
qed

section \<open>The booking lifecycle\<close>

text \<open>
  C6. A date before today, given as a date or as a string that parses to one, makes
  \<^verbatim>\<open>create_booking\<close> return \<open>None\<close> and \<^verbatim>\<open>update_booking\<close> return \<open>False\<close>, whatever
  the other arguments are; the store is returned as it was, with no statement sent.
\<close>

theorem past_date_rejected:
  assumes "as_date e a = Inr d" and "date_lt d (today e)"
  shows "create_booking e st user_id table_id a booking_time status_arg = (Inr None, st) \<and>
         update_booking e st booking_id new_user new_table (Some a) new_time new_status =
           (Inr False, st)"
  using assms by (simp add: create_booking_def update_booking_def Let_def)

theorem past_date_rejected_witness:
  "date_lt \<lparr>year = 2025, month = 5, day = 19\<rparr> (today example_env) \<and>
   create_booking example_env example_store 1 1 (DateObj \<lparr>year = 2025, month = 5, day = 19\<rparr>)
     (at_time 12 0) (Some ''reserved'') = (Inr None, example_store) \<and>
   update_booking example_env example_store 1 None None
     (Some (DateObj \<lparr>year = 2025, month = 5, day = 19\<rparr>)) None None = (Inr False, example_store)"
proof -
  let ?d = "\<lparr>year = 2025, month = 5, day = 19\<rparr>"
  have h1: "as_date example_env (DateObj ?d) = Inr ?d" by (simp add: as_date_def)
  have h2: "date_lt ?d (today example_env)" by (simp add: date_lt_def example_env_def)
  from past_date_rejected [OF h1 h2, of example_store 1 1 "at_time 12 0" "Some ''reserved''" 1 None None None None]
    h2
  show ?thesis by simp
qed

text \<open>
  C7. The booking exists, one of table, date and time is supplied, the date if supplied is
  not in the past, the status if supplied is a known one, and the server executes the
  statement. Then \<^verbatim>\<open>update_booking\<close> returns \<open>True\<close>, the row carries the new values, and
  the only statement sent is the \<^verbatim>\<open>UPDATE\<close>: neither the lookup of the table nor the query
  for the active bookings, with which \<^verbatim>\<open>check_table_availability\<close> would start. Nothing in
  the hypotheses speaks of the other bookings, so a conflicting slot is accepted.
\<close>

theorem reschedule_skips_availability:
  assumes present: "\<exists>r \<in> set (relations st ''bookings''). map_of r ''id'' = Some (VInt booking_id)"
    and supplied: "table_id \<noteq> None \<or> booking_date \<noteq> None \<or> booking_time \<noteq> None"
    and date_ok: "\<forall>a. booking_date = Some a \<longrightarrow> (\<exists>d. as_date e a = Inr d \<and> \<not> date_lt d (today e))"
    and status_ok: "\<forall>s. status = Some s \<longrightarrow> s \<in> set valid_statuses"
    and up: "\<forall>data. \<not> raises st (SqlUpdate ''bookings'' data [(''id'', VInt booking_id)])"
  shows "fst (update_booking e st booking_id user_id table_id booking_date booking_time status) = Inr True \<and>
         (\<exists>data. requests (snd (update_booking e st booking_id user_id table_id booking_date booking_time status)) =
            requests st @ [SqlUpdate ''bookings'' data [(''id'', VInt booking_id)]]) \<and>
         list_all (\<lambda>r. map_of r ''id'' = Some (VInt booking_id) \<longrightarrow>
              (\<forall>n. table_id = Some n \<longrightarrow> map_of r ''table_id'' = Some (VInt n)) \<and>
              (\<forall>a d. booking_date = Some a \<and> as_date e a = Inr d \<longrightarrow>
                 map_of r ''booking_date'' = Some (VDate d)) \<and>
              (\<forall>t. booking_time = Some t \<longrightarrow> map_of r ''booking_time'' = Some (VTime t)))
           (relations (snd (update_booking e st booking_id user_id table_id booking_date booking_time status))
              ''bookings'')"
proof -
  define new_date where
    "new_date = (case booking_date of None \<Rightarrow> None
                 | Some a \<Rightarrow> (case as_date e a of Inl err \<Rightarrow> None | Inr d \<Rightarrow> Some d))"
  define data where "data = update_data (now e 0) user_id table_id new_date booking_time status"
  have resolved: "(case booking_date of
                 None \<Rightarrow> Inr None
               | Some a \<Rightarrow> (case as_date e a of Inl err \<Rightarrow> Inl err | Inr d \<Rightarrow> Inr (Some d)))
        = Inr new_date"
    using date_ok by (auto simp add: new_date_def split: option.splits)
  have fresh: "\<not> (case new_date of None \<Rightarrow> False | Some d \<Rightarrow> date_lt d (today e))"
    using date_ok by (auto simp add: new_date_def split: option.splits)
  have known: "\<not> (case status of None \<Rightarrow> False | Some s \<Rightarrow> s \<notin> set valid_statuses)"
    using status_ok by (auto split: option.splits)
  have dated: "new_date \<noteq> None" if "booking_date \<noteq> None"
    using that date_ok by (auto simp add: new_date_def)
  have more: "length data \<noteq> 1"
    using supplied dated by (auto simp add: data_def length_update_data)
  have pos: "0 < length (filter (\<lambda>r. map_of r ''id'' = Some (VInt booking_id)) (relations st ''bookings''))"
    using present by (rule filter_pos)
  have ne: "data \<noteq> []" by (simp add: data_def update_data_nonempty)
  have run: "update_booking e st booking_id user_id table_id booking_date booking_time status =
      (Inr True,
       (execute (SqlUpdate ''bookings'' data [(''id'', VInt booking_id)]) st)
          \<lparr>relations := (relations st)
             (''bookings'' := map (\<lambda>r. if map_of r ''id'' = Some (VInt booking_id)
                                       then AList.merge r data else r)
                                 (relations st ''bookings''))\<rparr>)"
    using resolved fresh known more pos up
    by (simp add: update_booking_unfold update_db_by_id [OF ne] data_def [symmetric])
  have keep: "map_of data ''id'' = None" by (simp add: data_def map_of_update_data)
  have tbl: "map_of data ''table_id'' = map_option VInt table_id"
    and dat: "map_of data ''booking_date'' = map_option VDate new_date"
    and tim: "map_of data ''booking_time'' = map_option VTime booking_time"
    by (simp_all add: data_def map_of_update_data)
  have nd: "new_date = Some d" if "booking_date = Some a" "as_date e a = Inr d" for a d
    using that by (simp add: new_date_def)
  show ?thesis
    unfolding run
    by (auto simp add: list_all_iff merged_field keep tbl dat tim nd)
qed

theorem reschedule_skips_availability_witness:
  "fst (check_table_availability example_env example_store 1 june_1 (at_time 19 30)) = Inr False \<and>
   fst (update_booking example_env example_store 2 None None None (Some (at_time 19 30)) None) = Inr True \<and>
   list_all (\<lambda>r. map_of r ''id'' = Some (VInt 2) \<longrightarrow>
                map_of r ''table_id'' = Some (VInt 1) \<and>
                map_of r ''booking_date'' = Some (VDate june_1) \<and>
                map_of r ''booking_time'' = Some (VTime (at_time 19 30)))
     (relations (snd (update_booking example_env example_store 2 None None None
                        (Some (at_time 19 30)) None)) ''bookings'')"
proof -
  have present: "\<exists>r \<in> set (relations example_store ''bookings''). map_of r ''id'' = Some (VInt 2)"
    by (simp add: example_defs)
  have supplied: "(None :: int option) \<noteq> None \<or> (None :: date_arg option) \<noteq> None \<or>
      Some (at_time 19 30) \<noteq> None"
    by simp
  have date_ok: "\<forall>a. (None :: date_arg option) = Some a \<longrightarrow>
      (\<exists>d. as_date example_env a = Inr d \<and> \<not> date_lt d (today example_env))"
    by simp
  have status_ok: "\<forall>s. (None :: string option) = Some s \<longrightarrow> s \<in> set valid_statuses"
    by simp
  have up: "\<forall>data. \<not> raises example_store (SqlUpdate ''bookings'' data [(''id'', VInt 2)])"
    by (simp add: example_store_def)
  have rejected:
    "fst (check_table_availability example_env example_store 1 june_1 (at_time 19 30)) = Inr False"
    by (simp add: check_table_availability_def get_table_by_id_eq execute_raw_def Let_def
        example_defs active_booking_def booking_time_of_def time_diff_def total_microseconds_def)
  from reschedule_skips_availability [OF present supplied date_ok status_ok up, of None]
  have "fst (update_booking example_env example_store 2 None None None (Some (at_time 19 30)) None) = Inr True"
    by blast
  with rejected show ?thesis
    unfolding example_reschedule by (simp add: example_defs)
qed

text \<open>
  C8. After an \<^verbatim>\<open>update_booking\<close> that returned \<open>True\<close>, the bookings table has the same
  rows in the same order; a row with another id is untouched; in every row each of
  \<^verbatim>\<open>user_id\<close>, \<^verbatim>\<open>table_id\<close>, \<^verbatim>\<open>booking_date\<close>, \<^verbatim>\<open>booking_time\<close> and \<^verbatim>\<open>status\<close>
  whose argument was \<open>None\<close> has kept its value, and so have \<^verbatim>\<open>id\<close> and
  \<^verbatim>\<open>created_at\<close>; the other tables are as before.
\<close>

theorem partial_update_frame:
  assumes ok: "fst (update_booking e st booking_id user_id table_id booking_date booking_time status) = Inr True"
  shows "list_all2 (\<lambda>old new.
            (map_of old ''id'' \<noteq> Some (VInt booking_id) \<longrightarrow> new = old) \<and>
            (user_id = None \<longrightarrow> map_of new ''user_id'' = map_of old ''user_id'') \<and>
            (table_id = None \<longrightarrow> map_of new ''table_id'' = map_of old ''table_id'') \<and>
            (booking_date = None \<longrightarrow> map_of new ''booking_date'' = map_of old ''booking_date'') \<and>
            (booking_time = None \<longrightarrow> map_of new ''booking_time'' = map_of old ''booking_time'') \<and>
            (status = None \<longrightarrow> map_of new ''status'' = map_of old ''status'') \<and>
            map_of new ''id'' = map_of old ''id'' \<and>
            map_of new ''created_at'' = map_of old ''created_at'')
          (relations st ''bookings'')
          (relations (snd (update_booking e st booking_id user_id table_id booking_date booking_time status))
             ''bookings'') \<and>
         (\<forall>t. t \<noteq> ''bookings'' \<longrightarrow>
            relations (snd (update_booking e st booking_id user_id table_id booking_date booking_time status)) t =
            relations st t)"
proof -
  obtain new_date where resolved: "(case booking_date of
                 None \<Rightarrow> Inr None
               | Some a \<Rightarrow> (case as_date e a of Inl err \<Rightarrow> Inl err | Inr d \<Rightarrow> Inr (Some d)))
        = Inr new_date"
    using ok by (auto simp add: update_booking_unfold split: sum.splits)
  define data where "data = update_data (now e 0) user_id table_id new_date booking_time status"
  have none: "new_date = None" if "booking_date = None"
    using that resolved by simp
  have ne: "data \<noteq> []" by (simp add: data_def update_data_nonempty)
  have path: "\<not> (case new_date of None \<Rightarrow> False | Some d \<Rightarrow> date_lt d (today e))"
      "\<not> (case status of None \<Rightarrow> False | Some s \<Rightarrow> s \<notin> set valid_statuses)"
      "length data \<noteq> 1"
      "\<not> raises st (SqlUpdate ''bookings'' data [(''id'', VInt booking_id)])"
    using ok resolved
    by (auto simp add: update_booking_unfold update_db_by_id [OF ne] data_def [symmetric]
        split: if_splits)
  have run: "snd (update_booking e st booking_id user_id table_id booking_date booking_time status) =
       (execute (SqlUpdate ''bookings'' data [(''id'', VInt booking_id)]) st)
          \<lparr>relations := (relations st)
             (''bookings'' := map (\<lambda>r. if map_of r ''id'' = Some (VInt booking_id)
                                       then AList.merge r data else r)
                                 (relations st ''bookings''))\<rparr>"
    using resolved path
    by (simp add: update_booking_unfold update_db_by_id [OF ne] data_def [symmetric])
  have fields: "map_of data ''id'' = None" "map_of data ''created_at'' = None"
      "map_of data ''user_id'' = map_option VInt user_id"
      "map_of data ''table_id'' = map_option VInt table_id"
      "map_of data ''booking_date'' = map_option VDate new_date"
      "map_of data ''booking_time'' = map_option VTime booking_time"
      "map_of data ''status'' = map_option VStr status"
    by (simp_all add: data_def map_of_update_data)
  show ?thesis
    unfolding run
    by (auto simp add: list_all2_map2 list_all2_same merged_field fields none)
qed

theorem partial_update_frame_witness:
  "fst (update_booking example_env example_store 2 None None None (Some (at_time 19 30)) None) = Inr True \<and>
   map (\<lambda>r. (map_of r ''user_id'', map_of r ''table_id'', map_of r ''status''))
     (relations (snd (update_booking example_env example_store 2 None None None
                        (Some (at_time 19 30)) None)) ''bookings'') =
   map (\<lambda>r. (map_of r ''user_id'', map_of r ''table_id'', map_of r ''status''))
     (relations example_store ''bookings'') \<and>
   relations (snd (update_booking example_env example_store 2 None None None
                        (Some (at_time 19 30)) None)) ''tables'' = relations example_store ''tables''"
proof -
  have h: "fst (update_booking example_env example_store 2 None None None (Some (at_time 19 30)) None) = Inr True"
    by (simp add: example_reschedule)
  from partial_update_frame [OF h]
  have "relations (snd (update_booking example_env example_store 2 None None None
                        (Some (at_time 19 30)) None)) ''tables'' = relations example_store ''tables''"
    by simp
  with h show ?thesis
    unfolding example_reschedule by (simp add: example_defs)
qed

text \<open>
  C10. With every optional argument \<open>None\<close>, \<^verbatim>\<open>update_booking\<close> returns \<open>False\<close> and the
  store is returned as it was: no statement is sent, no row changes, the trace is the same.
\<close>

theorem empty_update_fails:
  "update_booking e st booking_id None None None None None = (Inr False, st)"
  by (simp add: update_booking_def)

section \<open>The guard of delete\<close>

text \<open>
  C9. For any table name, \<^verbatim>\<open>delete\<close> with an empty filter raises \<^verbatim>\<open>ValueError\<close> and leaves
  the store as it was. With a filter that is not empty, on a server that executes the
  statement, it returns the number of rows of the table that match the filter, and the
  table keeps exactly the rows that do not match.
\<close>

theorem delete_needs_filter:
  "delete_db st table_name [] = (Inl ValueError, st) \<and>
   (where_eq \<noteq> [] \<and> \<not> raises st (SqlDelete table_name where_eq) \<longrightarrow>
      fst (delete_db st table_name where_eq) =
        Inr (int (length (filter (matches where_eq) (relations st table_name)))) \<and>
      relations (snd (delete_db st table_name where_eq)) table_name =
        filter (\<lambda>r. \<not> matches where_eq r) (relations st table_name))"
  by (cases "table_name = ''bookings''")
     (simp_all add: delete_db_def Let_def cascade_same cascade_bookings)

theorem delete_needs_filter_witness:
  "fst (delete_db example_store ''bookings'' [(''id'', VInt 2)]) = Inr 1 \<and>
   map (\<lambda>r. map_of r ''id'') (relations (snd (delete_db example_store ''bookings'' [(''id'', VInt 2)])) ''bookings'')
     = [Some (VInt 1)]"
proof -
  have h: "[(''id'', VInt 2)] \<noteq> [] \<and> \<not> raises example_store (SqlDelete ''bookings'' [(''id'', VInt 2)])"
    by (simp add: example_store_def)
  from delete_needs_filter [of example_store "''bookings''" "[(''id'', VInt 2)]"] h
  have "fst (delete_db example_store ''bookings'' [(''id'', VInt 2)]) =
        Inr (int (length (filter (matches [(''id'', VInt 2)]) (relations example_store ''bookings'')))) \<and>
      relations (snd (delete_db example_store ''bookings'' [(''id'', VInt 2)])) ''bookings'' =
        filter (\<lambda>r. \<not> matches [(''id'', VInt 2)] r) (relations example_store ''bookings'')"
    by blast
  then show ?thesis
    by (simp add: matches_id example_defs)
qed

end
